theory Spec2Isabelle
  imports Main "HOL-Library.Word"
begin

section \<open>Data model of \<open>src/hooks/auth/useAuth.ts\<close>\<close>

text \<open>
  The hook \<open>useAuth\<close> composes functions it imports from other modules: the crypto helpers,
  the wrappers of the remote account service, and the handlers of \<open>useAuthData\<close>. None of
  them is defined in the file, so they are parameters of the model (the record \<open>env\<close>
  below). Data that the hook only passes through is kept opaque.
\<close>

type_synonym bytes = "8 word list"

text \<open>A value thrown by an imported function (a rejected promise).\<close>

datatype exn = Thrown string

text \<open>
  Modelled from the spec: the type of the value \<open>keysFromMnemonic\<close> resolves to is declared
  outside the file. The hook reads \<open>keys.publicKey\<close> and \<open>keys.seed\<close>; the spec's
  KeyMaterial has a public key, a private key and a symmetric seed.
\<close>

record keys =
  publicKey :: bytes
  privateKey :: bytes
  seed :: bytes

record profile =
  colorA :: string
  colorB :: string
  icon :: string

text \<open>\<open>LoginData\<close> and \<open>RegistrationData\<close>, with their nested \<open>userData\<close> objects.\<close>

record loginUserData =
  device :: string

record LoginData =
  mnemonic :: string
  userData :: loginUserData

record registrationUserData =
  device :: string
  profile :: profile

record RegistrationData =
  mnemonic :: string
  userData :: registrationUserData

text \<open>The object literals the hook builds for \<open>loginAccount\<close> and \<open>registerAccount\<close>.\<close>

record challengeInput =
  code :: string
  signature :: string

record LoginInput =
  challenge :: challengeInput
  publicKey :: string
  device :: string

record RegisterInput =
  challenge :: challengeInput
  publicKey :: string
  device :: string
  profile :: profile

text \<open>
  Opaque pass-through data: the hook never inspects a user record, a bookmark set or a
  progress set.
\<close>

type_synonym user = string
type_synonym bookmarks = string
type_synonym progress = string

text \<open>
  Modelled from the spec: the response types of the remote service are declared outside the
  file. A challenge response has the field \<open>challenge\<close> the hook destructures; a login
  response has the \<open>token\<close> the hook reads and a session id; a register response has in
  addition the \<open>user\<close> the hook reads.
\<close>

record ChallengeTokenResponse =
  challenge :: string

record LoginResponse =
  token :: string
  session :: string

record RegisterResponse =
  token :: string
  session :: string
  user :: user

text \<open>
  Modelled from the spec: the stored account (the spec's Session) is declared outside the
  file. The hook reads \<open>token\<close>, \<open>sessionId\<close> and \<open>profile\<close>; the spec adds the account
  identifier and the seed kept on the client.
\<close>

record account =
  userId :: string
  token :: string
  sessionId :: string
  seed :: string
  profile :: profile

text \<open>The slice of the auth store the hook selects from; other stores extend the record.\<close>

record authStore =
  account :: "account option"

text \<open>
  The first argument of \<open>userDataLogin\<close> is the response object itself: the login response
  in \<open>login\<close>, the register response in \<open>register\<close>.
\<close>

datatype sessionResult =
  LoginResult LoginResponse
| RegisterResult RegisterResponse

section \<open>Calls and their log\<close>

text \<open>
  Every call of an imported asynchronous function or handler is recorded with its arguments.
  A log entry pairs the call with \<open>None\<close> when it returned and \<open>Some e\<close> when it threw
  \<open>e\<close>.
\<close>

datatype call =
  KeysFromMnemonic string
| SignChallenge keys string
| EncryptData string bytes
| GetLoginChallengeToken string string
| LoginAccount string LoginInput
| GetRegisterChallengeToken string
| RegisterAccount string RegisterInput
| GetUser string string
| GetBookmarks string account
| GetProgress string account
| RemoveSession string string string
| UserDataLogin sessionResult user string
| UserDataLogout
| SyncData user progress bookmarks

type_synonym entry = "call \<times> exn option"

fun is_remote :: "call \<Rightarrow> bool" where
  "is_remote (GetLoginChallengeToken _ _) = True"
| "is_remote (LoginAccount _ _) = True"
| "is_remote (GetRegisterChallengeToken _) = True"
| "is_remote (RegisterAccount _ _) = True"
| "is_remote (GetUser _ _) = True"
| "is_remote (GetBookmarks _ _) = True"
| "is_remote (GetProgress _ _) = True"
| "is_remote (RemoveSession _ _ _) = True"
| "is_remote _ = False"

fun is_userDataLogin :: "call \<Rightarrow> bool" where
  "is_userDataLogin (UserDataLogin _ _ _) = True"
| "is_userDataLogin _ = False"

definition remote_calls :: "entry list \<Rightarrow> call list" where
  "remote_calls l = filter is_remote (map fst l)"

section \<open>Asynchronous computations\<close>

text \<open>
  The client-side stores are touched by the handlers only, the remote service by the
  network wrappers only. An asynchronous computation runs from a state of both and yields
  its result (a thrown value or a value), the log of the calls it made, and the new state.
  Here an operation is followed from its call to its return; two logins in flight at the
  same time are followed await by await further below.
\<close>

record ('s, 'w) sys =
  stores :: 's
  server :: 'w

type_synonym ('a, 's, 'w) async =
  "('s, 'w) sys \<Rightarrow> (exn + 'a) \<times> entry list \<times> ('s, 'w) sys"

definition resolve :: "'a \<Rightarrow> ('a, 's, 'w) async" where
  "resolve x s = (Inr x, [], s)"

text \<open>\<open>const x = await m; k x\<close>: a rejection of \<open>m\<close> skips the rest.\<close>

definition await :: "('a, 's, 'w) async \<Rightarrow> ('a \<Rightarrow> ('b, 's, 'w) async) \<Rightarrow> ('b, 's, 'w) async" where
  "await m k s =
     (case m s of
        (Inl e, l, s') \<Rightarrow> (Inl e, l, s')
      | (Inr x, l, s') \<Rightarrow> (case k x s' of (r, l', s'') \<Rightarrow> (r, l @ l', s'')))"

text \<open>\<open>try { await m } catch { }\<close>: whatever \<open>m\<close> throws is discarded.\<close>

definition try_catch :: "('a, 's, 'w) async \<Rightarrow> (unit, 's, 'w) async" where
  "try_catch m s = (case m s of (r, l, s') \<Rightarrow> (Inr (), l, s'))"

definition outcome :: "exn + 'a \<Rightarrow> exn option" where
  "outcome r = (case r of Inl e \<Rightarrow> Some e | Inr _ \<Rightarrow> None)"

text \<open>A local crypto helper: a function of its arguments that may throw.\<close>

definition local_call :: "call \<Rightarrow> exn + 'a \<Rightarrow> ('a, 's, 'w) async" where
  "local_call c r s = (r, [(c, outcome r)], s)"

text \<open>A call of the remote service: it reads and changes the server's state only.\<close>

definition remote_call :: "call \<Rightarrow> ('w \<Rightarrow> (exn + 'a) \<times> 'w) \<Rightarrow> ('a, 's, 'w) async" where
  "remote_call c f s =
     (case f (server s) of (r, w') \<Rightarrow> (r, [(c, outcome r)], s\<lparr>server := w'\<rparr>))"

text \<open>An awaited handler: it reads and changes the client-side stores only.\<close>

definition handler_call :: "call \<Rightarrow> ('s \<Rightarrow> (exn + 'a) \<times> 's) \<Rightarrow> ('a, 's, 'w) async" where
  "handler_call c f s =
     (case f (stores s) of (r, st') \<Rightarrow> (r, [(c, outcome r)], s\<lparr>stores := st'\<rparr>))"

text \<open>
  A handler called without \<open>await\<close>: the caller goes on whatever becomes of the promise it
  returns.
\<close>

definition handler_fire :: "call \<Rightarrow> ('s \<Rightarrow> 's) \<Rightarrow> (unit, 's, 'w) async" where
  "handler_fire c f s = (Inr (), [(c, None)], s\<lparr>stores := f (stores s)\<rparr>)"

section \<open>The imported functions\<close>

record ('s, 'w) env =
  keysFromMnemonic :: "string \<Rightarrow> exn + keys"
  signChallenge :: "keys \<Rightarrow> string \<Rightarrow> exn + string"
  encryptData :: "string \<Rightarrow> bytes \<Rightarrow> exn + string"
  bytesToBase64 :: "bytes \<Rightarrow> string"
  bytesToBase64Url :: "bytes \<Rightarrow> string"
  getLoginChallengeToken :: "string \<Rightarrow> string \<Rightarrow> 'w \<Rightarrow> (exn + ChallengeTokenResponse) \<times> 'w"
  loginAccount :: "string \<Rightarrow> LoginInput \<Rightarrow> 'w \<Rightarrow> (exn + LoginResponse) \<times> 'w"
  getRegisterChallengeToken :: "string \<Rightarrow> 'w \<Rightarrow> (exn + ChallengeTokenResponse) \<times> 'w"
  registerAccount :: "string \<Rightarrow> RegisterInput \<Rightarrow> 'w \<Rightarrow> (exn + RegisterResponse) \<times> 'w"
  getUser :: "string \<Rightarrow> string \<Rightarrow> 'w \<Rightarrow> (exn + user) \<times> 'w"
  getBookmarks :: "string \<Rightarrow> account \<Rightarrow> 'w \<Rightarrow> (exn + bookmarks) \<times> 'w"
  getProgress :: "string \<Rightarrow> account \<Rightarrow> 'w \<Rightarrow> (exn + progress) \<times> 'w"
  removeSession :: "string \<Rightarrow> string \<Rightarrow> string \<Rightarrow> 'w \<Rightarrow> (exn + unit) \<times> 'w"
  userDataLogin :: "sessionResult \<Rightarrow> user \<Rightarrow> string \<Rightarrow> 's \<Rightarrow> (exn + unit) \<times> 's"
  userDataLogout :: "'s \<Rightarrow> 's"
  syncData :: "user \<Rightarrow> progress \<Rightarrow> bookmarks \<Rightarrow> 's \<Rightarrow> 's"

section \<open>The hook\<close>

text \<open>
  What the hook reads from the auth store when it renders: \<open>currentAccount\<close> is
  \<open>account s\<close>, captured by the closures \<open>logout\<close> and \<open>restore\<close> and so a parameter
  of theirs below, like \<open>backendUrl\<close>; \<open>profile\<close> and \<open>loggedIn\<close> are returned.
\<close>

definition useAuth_profile :: "'z authStore_scheme \<Rightarrow> profile option" where
  "useAuth_profile s = (case account s of None \<Rightarrow> None | Some a \<Rightarrow> Some (account.profile a))"

text \<open>\<open>!!x\<close> on a value that is an object or null.\<close>

definition truthy :: "'a option \<Rightarrow> bool" where
  "truthy x = (case x of None \<Rightarrow> False | Some _ \<Rightarrow> True)"

definition loggedIn :: "'z authStore_scheme \<Rightarrow> bool" where
  "loggedIn s = (\<not> \<not> truthy (account s))"

definition login :: "('s, 'w) env \<Rightarrow> string \<Rightarrow> LoginData \<Rightarrow> (unit, 's, 'w) async" where
  "login env backendUrl loginData =
     await (local_call (KeysFromMnemonic (LoginData.mnemonic loginData))
              (keysFromMnemonic env (LoginData.mnemonic loginData))) (\<lambda>keys.
     let publicKeyBase64Url = bytesToBase64Url env (keys.publicKey keys) in
     await (remote_call (GetLoginChallengeToken backendUrl publicKeyBase64Url)
              (getLoginChallengeToken env backendUrl publicKeyBase64Url)) (\<lambda>resp.
     let challenge = ChallengeTokenResponse.challenge resp in
     await (local_call (SignChallenge keys challenge) (signChallenge env keys challenge)) (\<lambda>signature.
     await (local_call (EncryptData (loginUserData.device (LoginData.userData loginData)) (keys.seed keys))
              (encryptData env (loginUserData.device (LoginData.userData loginData)) (keys.seed keys))) (\<lambda>dev.
     let input = \<lparr>LoginInput.challenge = \<lparr>code = challenge, signature = signature\<rparr>,
                  LoginInput.publicKey = publicKeyBase64Url,
                  LoginInput.device = dev\<rparr> in
     await (remote_call (LoginAccount backendUrl input) (loginAccount env backendUrl input)) (\<lambda>loginResult.
     await (remote_call (GetUser backendUrl (LoginResponse.token loginResult))
              (getUser env backendUrl (LoginResponse.token loginResult))) (\<lambda>user.
     let seedBase64 = bytesToBase64 env (keys.seed keys) in
     await (handler_call (UserDataLogin (LoginResult loginResult) user seedBase64)
              (userDataLogin env (LoginResult loginResult) user seedBase64)) (\<lambda>_.
     resolve ())))))))"

definition logout :: "('s, 'w) env \<Rightarrow> string \<Rightarrow> account option \<Rightarrow> (unit, 's, 'w) async" where
  "logout env backendUrl currentAccount =
     (case currentAccount of
        None \<Rightarrow> resolve ()
      | Some acc \<Rightarrow>
          await (try_catch
                   (remote_call (RemoveSession backendUrl (account.token acc) (account.sessionId acc))
                      (removeSession env backendUrl (account.token acc) (account.sessionId acc)))) (\<lambda>_.
          handler_fire UserDataLogout (userDataLogout env)))"

definition register :: "('s, 'w) env \<Rightarrow> string \<Rightarrow> RegistrationData \<Rightarrow> (unit, 's, 'w) async" where
  "register env backendUrl registerData =
     await (remote_call (GetRegisterChallengeToken backendUrl)
              (getRegisterChallengeToken env backendUrl)) (\<lambda>resp.
     let challenge = ChallengeTokenResponse.challenge resp in
     await (local_call (KeysFromMnemonic (RegistrationData.mnemonic registerData))
              (keysFromMnemonic env (RegistrationData.mnemonic registerData))) (\<lambda>keys.
     await (local_call (SignChallenge keys challenge) (signChallenge env keys challenge)) (\<lambda>signature.
     let publicKeyBase64Url = bytesToBase64Url env (keys.publicKey keys) in
     await (local_call (EncryptData (registrationUserData.device (RegistrationData.userData registerData)) (keys.seed keys))
              (encryptData env (registrationUserData.device (RegistrationData.userData registerData)) (keys.seed keys))) (\<lambda>dev.
     let input = \<lparr>RegisterInput.challenge = \<lparr>code = challenge, signature = signature\<rparr>,
                  RegisterInput.publicKey = publicKeyBase64Url,
                  RegisterInput.device = dev,
                  RegisterInput.profile = registrationUserData.profile (RegistrationData.userData registerData)\<rparr> in
     await (remote_call (RegisterAccount backendUrl input) (registerAccount env backendUrl input)) (\<lambda>registerResult.
     await (handler_call (UserDataLogin (RegisterResult registerResult) (RegisterResponse.user registerResult)
                            (bytesToBase64 env (keys.seed keys)))
              (userDataLogin env (RegisterResult registerResult) (RegisterResponse.user registerResult)
                 (bytesToBase64 env (keys.seed keys)))) (\<lambda>_.
     resolve ()))))))"

definition restore :: "('s, 'w) env \<Rightarrow> string \<Rightarrow> account option \<Rightarrow> (unit, 's, 'w) async" where
  "restore env backendUrl currentAccount =
     (case currentAccount of
        None \<Rightarrow> resolve ()
      | Some acc \<Rightarrow>
          await (remote_call (GetUser backendUrl (account.token acc))
                   (getUser env backendUrl (account.token acc))) (\<lambda>user.
          await (remote_call (GetBookmarks backendUrl acc) (getBookmarks env backendUrl acc)) (\<lambda>bookmarks.
          await (remote_call (GetProgress backendUrl acc) (getProgress env backendUrl acc)) (\<lambda>progress.
          handler_fire (SyncData user progress bookmarks) (syncData env user progress bookmarks)))))"

section \<open>Reading a run\<close>

definition result_of :: "'r \<times> 'l \<times> 'q \<Rightarrow> 'r" where
  "result_of x = fst x"

definition log_of :: "'r \<times> 'l \<times> 'q \<Rightarrow> 'l" where
  "log_of x = fst (snd x)"

definition state_of :: "'r \<times> 'l \<times> 'q \<Rightarrow> 'q" where
  "state_of x = snd (snd x)"

section \<open>A double of the remote service and of the collaborators\<close>

text \<open>
  A concrete environment on which the operations can be run. The state of the remote
  service is the number of requests it will still answer; once it is 0 every request is
  rejected. So the initial state chooses the network call that fails.
\<close>

definition served :: "'a \<Rightarrow> nat \<Rightarrow> (exn + 'a) \<times> nat" where
  "served x w = (case w of 0 \<Rightarrow> (Inl (Thrown ''network''), 0) | Suc n \<Rightarrow> (Inr x, n))"

definition double_keys :: "string \<Rightarrow> exn + keys" where
  "double_keys m =
     (if m = ''legal winner thank year'' then
        Inr \<lparr>keys.publicKey = [1, 2, 3], privateKey = [4, 5, 6], keys.seed = [7, 8, 9]\<rparr>
      else if m = ''letter advice cage absurd'' then
        Inr \<lparr>keys.publicKey = [1, 2, 3], privateKey = [6, 5, 4], keys.seed = [9, 8, 7]\<rparr>
      else Inl (Thrown ''InvalidMnemonic''))"

definition double_install ::
  "sessionResult \<Rightarrow> user \<Rightarrow> string \<Rightarrow> authStore \<Rightarrow> (exn + unit) \<times> authStore" where
  "double_install r u sd st =
     (Inr (), st\<lparr>account := Some
        \<lparr>userId = u,
         account.token = (case r of LoginResult x \<Rightarrow> LoginResponse.token x
                              | RegisterResult x \<Rightarrow> RegisterResponse.token x),
         sessionId = (case r of LoginResult x \<Rightarrow> LoginResponse.session x
                              | RegisterResult x \<Rightarrow> RegisterResponse.session x),
         account.seed = sd,
         account.profile = \<lparr>colorA = ''#2E65CF'', colorB = ''#2E65CF'', icon = ''user''\<rparr>\<rparr>\<rparr>)"

definition service_double :: "(authStore, nat) env" where
  "service_double =
     \<lparr>keysFromMnemonic = double_keys,
      signChallenge = (\<lambda>k c. Inr (''sig:'' @ c)),
      encryptData = (\<lambda>d sd. Inr ''ciphertext''),
      bytesToBase64 = (\<lambda>b. ''c2VlZA==''),
      bytesToBase64Url = (\<lambda>b. ''cHVibGlj''),
      getLoginChallengeToken = (\<lambda>url pk. served \<lparr>ChallengeTokenResponse.challenge = ''c1''\<rparr>),
      loginAccount =
        (\<lambda>url i. served \<lparr>LoginResponse.token = ''t1'', LoginResponse.session = ''s1''\<rparr>),
      getRegisterChallengeToken = (\<lambda>url. served \<lparr>ChallengeTokenResponse.challenge = ''c2''\<rparr>),
      registerAccount =
        (\<lambda>url i. served \<lparr>RegisterResponse.token = ''t2'', RegisterResponse.session = ''s2'',
                             user = ''u2''\<rparr>),
      getUser = (\<lambda>url t. served ''u1''),
      getBookmarks = (\<lambda>url a. served ''bookmarks''),
      getProgress = (\<lambda>url a. served ''progress''),
      removeSession = (\<lambda>url t sid. served ()),
      userDataLogin = double_install,
      userDataLogout = (\<lambda>st. st\<lparr>account := None\<rparr>),
      syncData = (\<lambda>u p b st. st)\<rparr>"

definition no_session :: "nat \<Rightarrow> (authStore, nat) sys" where
  "no_session n = \<lparr>stores = \<lparr>account = None\<rparr>, server = n\<rparr>"

definition some_profile :: profile where
  "some_profile = \<lparr>colorA = ''#FF0000'', colorB = ''#00FF00'', icon = ''cat''\<rparr>"

definition login_data :: "string \<Rightarrow> LoginData" where
  "login_data m = \<lparr>LoginData.mnemonic = m, LoginData.userData = \<lparr>loginUserData.device = ''phone''\<rparr>\<rparr>"

definition registration_data :: "string \<Rightarrow> RegistrationData" where
  "registration_data m =
     \<lparr>RegistrationData.mnemonic = m,
      RegistrationData.userData =
        \<lparr>registrationUserData.device = ''phone'', registrationUserData.profile = some_profile\<rparr>\<rparr>"

definition backend :: string where
  "backend = ''https://backend''"

definition stored_account :: account where
  "stored_account =
     \<lparr>userId = ''u1'', account.token = ''t1'', sessionId = ''s1'', account.seed = ''c2VlZA=='',
      account.profile = some_profile\<rparr>"

definition with_session :: "nat \<Rightarrow> (authStore, nat) sys" where
  "with_session n = \<lparr>stores = \<lparr>account = Some stored_account\<rparr>, server = n\<rparr>"

section \<open>What a handshake may put on the wire\<close>

text \<open>
  Of the user's input and the key material derived from it, the values that may reach the
  remote service: the base64url public key, the signature of whatever challenge the server
  issues, the encrypted device payload and, in registration, the profile. Nothing, when the
  mnemonic is rejected.
\<close>

definition login_transmissible ::
  "('s, 'w) env \<Rightarrow> LoginData \<Rightarrow>
     (string \<times> (string \<Rightarrow> exn + string) \<times> (exn + string)) option" where
  "login_transmissible env loginData =
     (case keysFromMnemonic env (LoginData.mnemonic loginData) of
        Inl e \<Rightarrow> None
      | Inr keys \<Rightarrow>
          Some (bytesToBase64Url env (keys.publicKey keys),
                signChallenge env keys,
                encryptData env (loginUserData.device (LoginData.userData loginData))
                  (keys.seed keys)))"

definition register_transmissible ::
  "('s, 'w) env \<Rightarrow> RegistrationData \<Rightarrow>
     (string \<times> (string \<Rightarrow> exn + string) \<times> (exn + string) \<times> profile) option" where
  "register_transmissible env registerData =
     (case keysFromMnemonic env (RegistrationData.mnemonic registerData) of
        Inl e \<Rightarrow> None
      | Inr keys \<Rightarrow>
          Some (bytesToBase64Url env (keys.publicKey keys),
                signChallenge env keys,
                encryptData env
                  (registrationUserData.device (RegistrationData.userData registerData))
                  (keys.seed keys),
                registrationUserData.profile (RegistrationData.userData registerData)))"

section \<open>Two logins in flight\<close>

text \<open>
  \<open>login\<close> again, as a task that is suspended at each \<open>await\<close>: a state of the task names
  the imported call it will make when resumed and holds the local variables still needed.
  One step makes that call. Run alone, the task is \<open>login\<close> (lemma \<open>login_steps_alone\<close>).
\<close>

datatype login_task =
  AtKeysFromMnemonic LoginData
| AtGetLoginChallengeToken LoginData keys
| AtSignChallenge LoginData keys string
| AtEncryptData LoginData keys string string
| AtLoginAccount keys string string string
| AtGetUser keys LoginResponse
| AtUserDataLogin keys LoginResponse user
| Settled "exn + unit"

text \<open>Resuming at an \<open>await\<close>: a rejection settles the task, a value moves it on.\<close>

definition resume ::
  "('a, 's, 'w) async \<Rightarrow> ('a \<Rightarrow> login_task) \<Rightarrow> ('s, 'w) sys \<Rightarrow>
     login_task \<times> entry list \<times> ('s, 'w) sys" where
  "resume m k s =
     (case m s of
        (Inl e, l, s') \<Rightarrow> (Settled (Inl e), l, s')
      | (Inr x, l, s') \<Rightarrow> (k x, l, s'))"

fun login_step ::
  "('s, 'w) env \<Rightarrow> string \<Rightarrow> login_task \<Rightarrow> ('s, 'w) sys \<Rightarrow>
     login_task \<times> entry list \<times> ('s, 'w) sys" where
  "login_step env backendUrl (AtKeysFromMnemonic ld) =
     resume (local_call (KeysFromMnemonic (LoginData.mnemonic ld))
               (keysFromMnemonic env (LoginData.mnemonic ld)))
       (\<lambda>ks. AtGetLoginChallengeToken ld ks)"
| "login_step env backendUrl (AtGetLoginChallengeToken ld ks) =
     resume (remote_call (GetLoginChallengeToken backendUrl (bytesToBase64Url env (keys.publicKey ks)))
               (getLoginChallengeToken env backendUrl (bytesToBase64Url env (keys.publicKey ks))))
       (\<lambda>resp. AtSignChallenge ld ks (ChallengeTokenResponse.challenge resp))"
| "login_step env backendUrl (AtSignChallenge ld ks c) =
     resume (local_call (SignChallenge ks c) (signChallenge env ks c))
       (\<lambda>sg. AtEncryptData ld ks c sg)"
| "login_step env backendUrl (AtEncryptData ld ks c sg) =
     resume (local_call (EncryptData (loginUserData.device (LoginData.userData ld)) (keys.seed ks))
               (encryptData env (loginUserData.device (LoginData.userData ld)) (keys.seed ks)))
       (\<lambda>dev. AtLoginAccount ks c sg dev)"
| "login_step env backendUrl (AtLoginAccount ks c sg dev) =
     (let input = \<lparr>LoginInput.challenge = \<lparr>code = c, signature = sg\<rparr>,
                   LoginInput.publicKey = bytesToBase64Url env (keys.publicKey ks),
                   LoginInput.device = dev\<rparr> in
      resume (remote_call (LoginAccount backendUrl input) (loginAccount env backendUrl input))
        (\<lambda>loginResult. AtGetUser ks loginResult))"
| "login_step env backendUrl (AtGetUser ks res) =
     resume (remote_call (GetUser backendUrl (LoginResponse.token res))
               (getUser env backendUrl (LoginResponse.token res)))
       (\<lambda>usr. AtUserDataLogin ks res usr)"
| "login_step env backendUrl (AtUserDataLogin ks res usr) =
     resume (handler_call (UserDataLogin (LoginResult res) usr (bytesToBase64 env (keys.seed ks)))
               (userDataLogin env (LoginResult res) usr (bytesToBase64 env (keys.seed ks))))
       (\<lambda>_. Settled (Inr ()))"
| "login_step env backendUrl (Settled r) = (\<lambda>s. (Settled r, [], s))"

primrec login_steps ::
  "('s, 'w) env \<Rightarrow> string \<Rightarrow> nat \<Rightarrow> login_task \<Rightarrow> ('s, 'w) sys \<Rightarrow>
     login_task \<times> entry list \<times> ('s, 'w) sys" where
  "login_steps env backendUrl 0 t s = (t, [], s)"
| "login_steps env backendUrl (Suc n) t s =
     (case login_step env backendUrl t s of
        (t', l, s') \<Rightarrow>
          (case login_steps env backendUrl n t' s' of (t'', l', s'') \<Rightarrow> (t'', l @ l', s'')))"















section \<open>Rules for the asynchronous computations\<close>

lemma awaitE:
  assumes "await m k s = (r, l, s')"
  obtains (rejected) e where "m s = (Inl e, l, s')" "r = Inl e"
  | (resolved) x l1 s1 l2 where "m s = (Inr x, l1, s1)" "k x s1 = (r, l2, s')" "l = l1 @ l2"
  using assms by (auto simp: await_def split: sum.splits prod.splits)

lemma outcome_simps [simp]: "outcome (Inl e) = Some e" "outcome (Inr x) = None"
  by (simp_all add: outcome_def)

lemma local_call_iff:
  "local_call c res s = (r, l, s') \<longleftrightarrow> res = r \<and> l = [(c, outcome r)] \<and> s' = s"
  by (auto simp: local_call_def)

lemma remote_call_iff:
  "remote_call c f s = (r, l, s') \<longleftrightarrow>
     (\<exists>w'. f (server s) = (r, w') \<and> l = [(c, outcome r)] \<and> s' = s\<lparr>server := w'\<rparr>)"
  by (auto simp: remote_call_def split: prod.splits)

lemma handler_call_iff:
  "handler_call c f s = (r, l, s') \<longleftrightarrow>
     (\<exists>st'. f (stores s) = (r, st') \<and> l = [(c, outcome r)] \<and> s' = s\<lparr>stores := st'\<rparr>)"
  by (auto simp: handler_call_def split: prod.splits)

lemma handler_fire_iff:
  "handler_fire c f s = (r, l, s') \<longleftrightarrow>
     r = Inr () \<and> l = [(c, None)] \<and> s' = s\<lparr>stores := f (stores s)\<rparr>"
  by (auto simp: handler_fire_def)

lemma resolve_iff: "resolve x s = (r, l, s') \<longleftrightarrow> r = Inr x \<and> l = [] \<and> s' = s"
  by (auto simp: resolve_def)

lemma try_catch_iff:
  "try_catch m s = (r, l, s') \<longleftrightarrow> r = Inr () \<and> (\<exists>r0. m s = (r0, l, s'))"
  by (auto simp: try_catch_def split: prod.splits)

lemmas prim_iffs =
  local_call_iff remote_call_iff handler_call_iff handler_fire_iff resolve_iff try_catch_iff

lemmas async_defs =
  await_def local_call_def remote_call_def handler_call_def handler_fire_def resolve_def
  try_catch_def Let_def

lemmas run_defs = result_of_def log_of_def state_of_def remote_calls_def

lemmas double_defs =
  service_double_def double_keys_def double_install_def served_def no_session_def
  some_profile_def login_data_def registration_data_def backend_def stored_account_def
  with_session_def

lemma run_eq: "x = (result_of x, log_of x, state_of x)"
  by (simp add: run_defs)

lemma await_proj:
  "result_of (await m k s) =
     (case result_of (m s) of Inl e \<Rightarrow> Inl e | Inr x \<Rightarrow> result_of (k x (state_of (m s))))"
  "log_of (await m k s) =
     (case result_of (m s) of Inl e \<Rightarrow> log_of (m s)
      | Inr x \<Rightarrow> log_of (m s) @ log_of (k x (state_of (m s))))"
  "state_of (await m k s) =
     (case result_of (m s) of Inl e \<Rightarrow> state_of (m s)
      | Inr x \<Rightarrow> state_of (k x (state_of (m s))))"
  by (simp_all add: await_def run_defs split: sum.splits prod.splits)

lemma local_call_proj:
  "result_of (local_call c r s) = r"
  "log_of (local_call c r s) = [(c, outcome r)]"
  "state_of (local_call c r s) = s"
  by (simp_all add: local_call_def run_defs)

lemma remote_call_proj:
  "result_of (remote_call c f s) = fst (f (server s))"
  "log_of (remote_call c f s) = [(c, outcome (fst (f (server s))))]"
  "state_of (remote_call c f s) = s\<lparr>server := snd (f (server s))\<rparr>"
  by (simp_all add: remote_call_def run_defs split: prod.splits)

lemma handler_call_proj:
  "result_of (handler_call c f s) = fst (f (stores s))"
  "log_of (handler_call c f s) = [(c, outcome (fst (f (stores s))))]"
  "state_of (handler_call c f s) = s\<lparr>stores := snd (f (stores s))\<rparr>"
  by (simp_all add: handler_call_def run_defs split: prod.splits)

lemma resolve_proj:
  "result_of (resolve x s) = Inr x" "log_of (resolve x s) = []" "state_of (resolve x s) = s"
  by (simp_all add: resolve_def run_defs)

lemmas proj_simps = await_proj local_call_proj remote_call_proj handler_call_proj resolve_proj

lemma remote_calls_simps:
  "remote_calls [] = []"
  "remote_calls ((c, out) # l) = (if is_remote c then c # remote_calls l else remote_calls l)"
  "remote_calls (l @ l') = remote_calls l @ remote_calls l'"
  by (simp_all add: remote_calls_def)

section \<open>Key derivation and the network\<close>

text \<open>
  In \<open>login\<close> the key derivation is the first call, so a mnemonic it rejects ends the
  handshake with no call of the remote service.
\<close>

lemma login_invalid_mnemonic_no_network:
  assumes "keysFromMnemonic env (LoginData.mnemonic ld) = Inl e"
  shows "login env url ld s = (Inl e, [(KeysFromMnemonic (LoginData.mnemonic ld), Some e)], s)"
  using assms by (simp add: login_def async_defs)

text \<open>
  C1: in login and in register, a failing key derivation aborts the handshake before any
  network call. \<open>register\<close> does not do so: it awaits \<open>getRegisterChallengeToken\<close> before
  \<open>keysFromMnemonic\<close>. With a mnemonic that the double rejects, \<open>register\<close> has requested a
  challenge from the remote service before it fails, where \<open>login\<close> on the same mnemonic has
  called the remote service not at all.
\<close>

theorem register_invalid_mnemonic_requests_challenge:
  "keysFromMnemonic service_double (RegistrationData.mnemonic (registration_data ''not a mnemonic''))
     = Inl (Thrown ''InvalidMnemonic'') \<and>
   log_of (register service_double backend (registration_data ''not a mnemonic'') (no_session 5))
     = [(GetRegisterChallengeToken backend, None),
        (KeysFromMnemonic ''not a mnemonic'', Some (Thrown ''InvalidMnemonic''))] \<and>
   remote_calls (log_of (register service_double backend
                           (registration_data ''not a mnemonic'') (no_session 5)))
     = [GetRegisterChallengeToken backend] \<and>
   remote_calls (log_of (login service_double backend (login_data ''not a mnemonic'')
                           (no_session 5))) = []"
  by (simp add: register_def login_def async_defs run_defs double_defs)

section \<open>Failure installs no session\<close>

lemma login_failed_step:
  assumes "login env url ld s = (r, l, s')" "(c, Some e) \<in> set l" "\<not> is_userDataLogin c"
  shows "r = Inl e \<and> (\<forall>x \<in> set l. \<not> is_userDataLogin (fst x)) \<and> stores s' = stores s"
  using assms unfolding login_def Let_def
  by (auto elim!: awaitE simp: prim_iffs)

lemma register_failed_step:
  assumes "register env url rd s = (r, l, s')" "(c, Some e) \<in> set l" "\<not> is_userDataLogin c"
  shows "r = Inl e \<and> (\<forall>x \<in> set l. \<not> is_userDataLogin (fst x)) \<and> stores s' = stores s"
  using assms unfolding register_def Let_def
  by (auto elim!: awaitE simp: prim_iffs)

lemma login_handler_last:
  assumes "login env url ld s = (r, l, s')" "x \<in> set l" "is_userDataLogin (fst x)"
  shows "l = butlast l @ [x] \<and> (\<forall>y \<in> set (butlast l). snd y = None)"
  using assms unfolding login_def Let_def
  by (auto elim!: awaitE simp: prim_iffs)

lemma register_handler_last:
  assumes "register env url rd s = (r, l, s')" "x \<in> set l" "is_userDataLogin (fst x)"
  shows "l = butlast l @ [x] \<and> (\<forall>y \<in> set (butlast l). snd y = None)"
  using assms unfolding register_def Let_def
  by (auto elim!: awaitE simp: prim_iffs)

text \<open>
  C2: in a run of \<open>login\<close> or of \<open>register\<close>, if any step other than the login handler itself
  throws (key derivation, challenge fetch, signing, encryption, submission, user fetch), the
  run fails with that error, the login handler \<open>userDataLogin\<close> is not called, and the
  client-side stores, hence \<open>loggedIn\<close>, are what they were. Where the login handler is
  called, it is the last call of the run and every call before it has returned normally.
\<close>

theorem handshake_failure_installs_nothing:
  fixes env :: "('z authStore_scheme, 'w) env"
  assumes "run = login env url ld s \<or> run = register env url rd s"
  shows "(\<forall>c e. (c, Some e) \<in> set (log_of run) \<and> \<not> is_userDataLogin c \<longrightarrow>
            result_of run = Inl e \<and>
            (\<forall>x \<in> set (log_of run). \<not> is_userDataLogin (fst x)) \<and>
            stores (state_of run) = stores s \<and>
            loggedIn (stores (state_of run)) = loggedIn (stores s)) \<and>
         (\<forall>x \<in> set (log_of run). is_userDataLogin (fst x) \<longrightarrow>
            log_of run = butlast (log_of run) @ [x] \<and>
            (\<forall>y \<in> set (butlast (log_of run)). snd y = None))"
proof -
  have run: "run = (result_of run, log_of run, state_of run)"
    by (rule run_eq)
  from assms show ?thesis
  proof
    assume "run = login env url ld s"
    with run have "login env url ld s = (result_of run, log_of run, state_of run)"
      by simp
    from login_failed_step [OF this] login_handler_last [OF this]
    show ?thesis by metis
  next
    assume "run = register env url rd s"
    with run have "register env url rd s = (result_of run, log_of run, state_of run)"
      by simp
    from register_failed_step [OF this] register_handler_last [OF this]
    show ?thesis by metis
  qed
qed

text \<open>
  On the double: with one request answered, the login challenge is issued and the submission
  is rejected; with two, registration goes through and the handler is its last call.
\<close>

theorem handshake_failure_installs_nothing_witness:
  "(LoginAccount backend
      \<lparr>LoginInput.challenge = \<lparr>code = ''c1'', signature = ''sig:c1''\<rparr>,
       LoginInput.publicKey = ''cHVibGlj'', LoginInput.device = ''ciphertext''\<rparr>,
    Some (Thrown ''network''))
     \<in> set (log_of (login service_double backend (login_data ''legal winner thank year'')
                      (no_session 1))) \<and>
   result_of (login service_double backend (login_data ''legal winner thank year'') (no_session 1))
     = Inl (Thrown ''network'') \<and>
   stores (state_of (login service_double backend (login_data ''legal winner thank year'')
                       (no_session 1))) = stores (no_session 1) \<and>
   (UserDataLogin
      (RegisterResult \<lparr>RegisterResponse.token = ''t2'', RegisterResponse.session = ''s2'',
                       user = ''u2''\<rparr>) ''u2'' ''c2VlZA=='', None)
     \<in> set (log_of (register service_double backend
                      (registration_data ''legal winner thank year'') (no_session 2))) \<and>
   last (log_of (register service_double backend
                   (registration_data ''legal winner thank year'') (no_session 2))) =
     (UserDataLogin
        (RegisterResult \<lparr>RegisterResponse.token = ''t2'', RegisterResponse.session = ''s2'',
                         user = ''u2''\<rparr>) ''u2'' ''c2VlZA=='', None)"
proof -
  let ?failed = "login service_double backend (login_data ''legal winner thank year'') (no_session 1)"
  let ?c = "LoginAccount backend
      \<lparr>LoginInput.challenge = \<lparr>code = ''c1'', signature = ''sig:c1''\<rparr>,
       LoginInput.publicKey = ''cHVibGlj'', LoginInput.device = ''ciphertext''\<rparr>"
  let ?done = "register service_double backend (registration_data ''legal winner thank year'')
                 (no_session 2)"
  let ?x = "(UserDataLogin
      (RegisterResult \<lparr>RegisterResponse.token = ''t2'', RegisterResponse.session = ''s2'',
                       user = ''u2''\<rparr>) ''u2'' ''c2VlZA=='', None :: exn option)"
  have thrown: "(?c, Some (Thrown ''network'')) \<in> set (log_of ?failed)"
    by (simp add: login_def async_defs run_defs double_defs)
  have other: "\<not> is_userDataLogin ?c"
    by simp
  have is_login: "?failed = ?failed \<or>
      ?failed = register service_double backend (registration_data []) (no_session 1)"
    by (rule disjI1) (rule refl)
  note failed = handshake_failure_installs_nothing
    [OF is_login, THEN conjunct1, rule_format, OF conjI, OF thrown other]
  have called: "?x \<in> set (log_of ?done)"
    by (simp add: register_def async_defs run_defs double_defs)
  have handler: "is_userDataLogin (fst ?x)"
    by simp
  have is_register: "?done = login service_double backend (login_data []) (no_session 2) \<or>
      ?done = ?done"
    by (rule disjI2) (rule refl)
  note installed = handshake_failure_installs_nothing
    [OF is_register, THEN conjunct2, rule_format, OF called handler, THEN conjunct1]
  have "last (log_of ?done) = last (butlast (log_of ?done) @ [?x])"
    by (rule arg_cong [OF installed])
  also have "\<dots> = ?x"
    by (rule last_snoc)
  finally have at_end: "last (log_of ?done) = ?x" .
  from thrown failed [THEN conjunct1] failed [THEN conjunct2, THEN conjunct2, THEN conjunct1]
    called at_end
  show ?thesis
    by (intro conjI)
qed

section \<open>The steps of a successful login\<close>

text \<open>
  C3: a login that succeeds has made exactly these calls, in this order, each returning
  normally: \<open>keysFromMnemonic\<close> on the mnemonic; \<open>getLoginChallengeToken\<close> with the
  base64url public key; \<open>signChallenge\<close> on the challenge the server returned;
  \<open>encryptData\<close> of the device under the derived seed; \<open>loginAccount\<close> with the challenge
  code, the signature, the public key and the encrypted device; \<open>getUser\<close> with the token
  of the login response; \<open>userDataLogin\<close> with the login response, the user and the base64
  seed.
\<close>

theorem login_success_steps:
  assumes "result_of (login env url ld s) = Inr ()"
  shows "\<exists>keys resp w1 sg dev res w2 usr w3 st'.
           keysFromMnemonic env (LoginData.mnemonic ld) = Inr keys \<and>
           getLoginChallengeToken env url (bytesToBase64Url env (keys.publicKey keys)) (server s)
             = (Inr resp, w1) \<and>
           signChallenge env keys (ChallengeTokenResponse.challenge resp) = Inr sg \<and>
           encryptData env (loginUserData.device (LoginData.userData ld)) (keys.seed keys)
             = Inr dev \<and>
           loginAccount env url
             \<lparr>LoginInput.challenge =
                \<lparr>code = ChallengeTokenResponse.challenge resp, signature = sg\<rparr>,
              LoginInput.publicKey = bytesToBase64Url env (keys.publicKey keys),
              LoginInput.device = dev\<rparr> w1 = (Inr res, w2) \<and>
           getUser env url (LoginResponse.token res) w2 = (Inr usr, w3) \<and>
           userDataLogin env (LoginResult res) usr (bytesToBase64 env (keys.seed keys)) (stores s)
             = (Inr (), st') \<and>
           state_of (login env url ld s) = \<lparr>stores = st', server = w3\<rparr> \<and>
           log_of (login env url ld s) =
             [(KeysFromMnemonic (LoginData.mnemonic ld), None),
              (GetLoginChallengeToken url (bytesToBase64Url env (keys.publicKey keys)), None),
              (SignChallenge keys (ChallengeTokenResponse.challenge resp), None),
              (EncryptData (loginUserData.device (LoginData.userData ld)) (keys.seed keys), None),
              (LoginAccount url
                 \<lparr>LoginInput.challenge =
                    \<lparr>code = ChallengeTokenResponse.challenge resp, signature = sg\<rparr>,
                  LoginInput.publicKey = bytesToBase64Url env (keys.publicKey keys),
                  LoginInput.device = dev\<rparr>, None),
              (GetUser url (LoginResponse.token res), None),
              (UserDataLogin (LoginResult res) usr (bytesToBase64 env (keys.seed keys)), None)]"
proof -
  have "login env url ld s = (Inr (), log_of (login env url ld s), state_of (login env url ld s))"
    using run_eq [of "login env url ld s"] assms by simp
  then show ?thesis
    unfolding login_def Let_def
    by (elim awaitE) (auto simp: prim_iffs)
qed

theorem login_success_steps_witness:
  "result_of (login service_double backend (login_data ''legal winner thank year'') (no_session 3))
     = Inr () \<and>
   length (log_of (login service_double backend (login_data ''legal winner thank year'')
                     (no_session 3))) = 7 \<and>
   map fst (log_of (login service_double backend (login_data ''legal winner thank year'')
                      (no_session 3))) =
     [KeysFromMnemonic ''legal winner thank year'',
      GetLoginChallengeToken backend ''cHVibGlj'',
      SignChallenge \<lparr>keys.publicKey = [1, 2, 3], privateKey = [4, 5, 6], keys.seed = [7, 8, 9]\<rparr>
        ''c1'',
      EncryptData ''phone'' [7, 8, 9],
      LoginAccount backend
        \<lparr>LoginInput.challenge = \<lparr>code = ''c1'', signature = ''sig:c1''\<rparr>,
         LoginInput.publicKey = ''cHVibGlj'', LoginInput.device = ''ciphertext''\<rparr>,
      GetUser backend ''t1'',
      UserDataLogin (LoginResult \<lparr>LoginResponse.token = ''t1'', LoginResponse.session = ''s1''\<rparr>)
        ''u1'' ''c2VlZA=='']"
proof -
  let ?run = "login service_double backend (login_data ''legal winner thank year'') (no_session 3)"
  have ok: "result_of ?run = Inr ()"
    by (simp add: login_def async_defs run_defs double_defs)
  from login_success_steps [OF ok] have len: "length (log_of ?run) = 7"
    by (elim exE conjE) simp
  have calls: "map fst (log_of ?run) =
     [KeysFromMnemonic ''legal winner thank year'',
      GetLoginChallengeToken backend ''cHVibGlj'',
      SignChallenge \<lparr>keys.publicKey = [1, 2, 3], privateKey = [4, 5, 6], keys.seed = [7, 8, 9]\<rparr>
        ''c1'',
      EncryptData ''phone'' [7, 8, 9],
      LoginAccount backend
        \<lparr>LoginInput.challenge = \<lparr>code = ''c1'', signature = ''sig:c1''\<rparr>,
         LoginInput.publicKey = ''cHVibGlj'', LoginInput.device = ''ciphertext''\<rparr>,
      GetUser backend ''t1'',
      UserDataLogin (LoginResult \<lparr>LoginResponse.token = ''t1'', LoginResponse.session = ''s1''\<rparr>)
        ''u1'' ''c2VlZA=='']"
    by (simp add: login_def async_defs run_defs double_defs)
  from ok len calls show ?thesis
    by (intro conjI)
qed

section \<open>Logout\<close>

text \<open>
  C4: with no current account, \<open>logout\<close> returns at once: no call, no change. With a
  current account it calls \<open>removeSession\<close> with the stored token and session id, then the
  logout handler \<open>userDataLogout\<close>, and returns normally, whatever \<open>removeSession\<close> did:
  a rejected revoke is caught and dropped.
\<close>

theorem logout_clears_regardless_of_revoke:
  "logout env url None s = (Inr (), [], s) \<and>
   result_of (logout env url (Some acc) s) = Inr () \<and>
   map fst (log_of (logout env url (Some acc) s)) =
     [RemoveSession url (account.token acc) (account.sessionId acc), UserDataLogout] \<and>
   stores (state_of (logout env url (Some acc) s)) = userDataLogout env (stores s)"
  by (simp add: logout_def async_defs run_defs split: prod.splits)

text \<open>On the double, with a server that answers nothing: the revoke is rejected, the store is cleared.\<close>

theorem logout_clears_regardless_of_revoke_witness:
  "log_of (logout service_double backend (Some stored_account) (with_session 0)) =
     [(RemoveSession backend ''t1'' ''s1'', Some (Thrown ''network'')), (UserDataLogout, None)] \<and>
   result_of (logout service_double backend (Some stored_account) (with_session 0)) = Inr () \<and>
   stores (state_of (logout service_double backend (Some stored_account) (with_session 0)))
     = \<lparr>account = None\<rparr>"
proof -
  let ?run = "logout service_double backend (Some stored_account) (with_session 0)"
  note general = logout_clears_regardless_of_revoke
    [of service_double backend "with_session 0" stored_account]
  have rejected: "log_of ?run =
     [(RemoveSession backend ''t1'' ''s1'', Some (Thrown ''network'')), (UserDataLogout, None)]"
    by (simp add: logout_def async_defs run_defs double_defs)
  have "userDataLogout service_double (stores (with_session 0)) = \<lparr>account = None\<rparr>"
    by (simp add: double_defs)
  with general [THEN conjunct2, THEN conjunct2, THEN conjunct2]
  have cleared: "stores (state_of ?run) = \<lparr>account = None\<rparr>"
    by (rule trans)
  from rejected general [THEN conjunct2, THEN conjunct1] cleared show ?thesis
    by (intro conjI)
qed

section \<open>Register\<close>

lemma register_never_fetches_user:
  assumes "register env url rd s = (r, l, s')"
  shows "GetUser u t \<notin> fst ` set l \<and> GetLoginChallengeToken u k \<notin> fst ` set l"
  using assms unfolding register_def Let_def
  by (auto elim!: awaitE simp: prim_iffs)

lemma register_success:
  assumes "register env url rd s = (Inr (), l, s')"
  shows "\<exists>resp w1 keys sg dev res w2 st'.
           getRegisterChallengeToken env url (server s) = (Inr resp, w1) \<and>
           keysFromMnemonic env (RegistrationData.mnemonic rd) = Inr keys \<and>
           signChallenge env keys (ChallengeTokenResponse.challenge resp) = Inr sg \<and>
           encryptData env (registrationUserData.device (RegistrationData.userData rd)) (keys.seed keys)
             = Inr dev \<and>
           registerAccount env url
             \<lparr>RegisterInput.challenge =
                \<lparr>code = ChallengeTokenResponse.challenge resp, signature = sg\<rparr>,
              RegisterInput.publicKey = bytesToBase64Url env (keys.publicKey keys),
              RegisterInput.device = dev,
              RegisterInput.profile = registrationUserData.profile (RegistrationData.userData rd)\<rparr>
             w1 = (Inr res, w2) \<and>
           userDataLogin env (RegisterResult res) (RegisterResponse.user res)
             (bytesToBase64 env (keys.seed keys)) (stores s) = (Inr (), st') \<and>
           s' = \<lparr>stores = st', server = w2\<rparr> \<and>
           l =
             [(GetRegisterChallengeToken url, None),
              (KeysFromMnemonic (RegistrationData.mnemonic rd), None),
              (SignChallenge keys (ChallengeTokenResponse.challenge resp), None),
              (EncryptData (registrationUserData.device (RegistrationData.userData rd))
                 (keys.seed keys), None),
              (RegisterAccount url
                 \<lparr>RegisterInput.challenge =
                    \<lparr>code = ChallengeTokenResponse.challenge resp, signature = sg\<rparr>,
                  RegisterInput.publicKey = bytesToBase64Url env (keys.publicKey keys),
                  RegisterInput.device = dev,
                  RegisterInput.profile =
                    registrationUserData.profile (RegistrationData.userData rd)\<rparr>, None),
              (UserDataLogin (RegisterResult res) (RegisterResponse.user res)
                 (bytesToBase64 env (keys.seed keys)), None)]"
  using assms unfolding register_def Let_def
  by (elim awaitE) (auto simp: prim_iffs)

text \<open>
  C5: \<open>register\<close> never calls \<open>getUser\<close> and never requests a login challenge. A
  registration that succeeds has made exactly these calls, each returning normally:
  \<open>getRegisterChallengeToken\<close> with the backend address alone (no public key);
  \<open>keysFromMnemonic\<close>; \<open>signChallenge\<close> on the returned challenge; \<open>encryptData\<close> of the
  device under the seed; \<open>registerAccount\<close> with the challenge code, the signature, the
  base64url public key, the encrypted device and the profile; \<open>userDataLogin\<close> with the
  register response, the user embedded in that response and the base64 seed.
\<close>

theorem register_steps:
  "GetUser u t \<notin> fst ` set (log_of (register env url rd s)) \<and>
   GetLoginChallengeToken u k \<notin> fst ` set (log_of (register env url rd s)) \<and>
   (result_of (register env url rd s) = Inr () \<longrightarrow>
    (\<exists>resp w1 keys sg dev res w2 st'.
       getRegisterChallengeToken env url (server s) = (Inr resp, w1) \<and>
       keysFromMnemonic env (RegistrationData.mnemonic rd) = Inr keys \<and>
       signChallenge env keys (ChallengeTokenResponse.challenge resp) = Inr sg \<and>
       encryptData env (registrationUserData.device (RegistrationData.userData rd)) (keys.seed keys)
         = Inr dev \<and>
       registerAccount env url
         \<lparr>RegisterInput.challenge =
            \<lparr>code = ChallengeTokenResponse.challenge resp, signature = sg\<rparr>,
          RegisterInput.publicKey = bytesToBase64Url env (keys.publicKey keys),
          RegisterInput.device = dev,
          RegisterInput.profile = registrationUserData.profile (RegistrationData.userData rd)\<rparr>
         w1 = (Inr res, w2) \<and>
       userDataLogin env (RegisterResult res) (RegisterResponse.user res)
         (bytesToBase64 env (keys.seed keys)) (stores s) = (Inr (), st') \<and>
       state_of (register env url rd s) = \<lparr>stores = st', server = w2\<rparr> \<and>
       log_of (register env url rd s) =
         [(GetRegisterChallengeToken url, None),
          (KeysFromMnemonic (RegistrationData.mnemonic rd), None),
          (SignChallenge keys (ChallengeTokenResponse.challenge resp), None),
          (EncryptData (registrationUserData.device (RegistrationData.userData rd))
             (keys.seed keys), None),
          (RegisterAccount url
             \<lparr>RegisterInput.challenge =
                \<lparr>code = ChallengeTokenResponse.challenge resp, signature = sg\<rparr>,
              RegisterInput.publicKey = bytesToBase64Url env (keys.publicKey keys),
              RegisterInput.device = dev,
              RegisterInput.profile =
                registrationUserData.profile (RegistrationData.userData rd)\<rparr>, None),
          (UserDataLogin (RegisterResult res) (RegisterResponse.user res)
             (bytesToBase64 env (keys.seed keys)), None)]))"
proof (intro conjI impI)
  have run: "register env url rd s =
          (result_of (register env url rd s), log_of (register env url rd s),
           state_of (register env url rd s))"
    by (rule run_eq)
  from register_never_fetches_user [OF run]
  show "GetUser u t \<notin> fst ` set (log_of (register env url rd s))"
    by (rule conjunct1)
  from register_never_fetches_user [OF run]
  show "GetLoginChallengeToken u k \<notin> fst ` set (log_of (register env url rd s))"
    by (rule conjunct2)
  assume "result_of (register env url rd s) = Inr ()"
  with run have "register env url rd s =
          (Inr (), log_of (register env url rd s), state_of (register env url rd s))"
    by simp
  then show "\<exists>resp w1 keys sg dev res w2 st'.
       getRegisterChallengeToken env url (server s) = (Inr resp, w1) \<and>
       keysFromMnemonic env (RegistrationData.mnemonic rd) = Inr keys \<and>
       signChallenge env keys (ChallengeTokenResponse.challenge resp) = Inr sg \<and>
       encryptData env (registrationUserData.device (RegistrationData.userData rd)) (keys.seed keys)
         = Inr dev \<and>
       registerAccount env url
         \<lparr>RegisterInput.challenge =
            \<lparr>code = ChallengeTokenResponse.challenge resp, signature = sg\<rparr>,
          RegisterInput.publicKey = bytesToBase64Url env (keys.publicKey keys),
          RegisterInput.device = dev,
          RegisterInput.profile = registrationUserData.profile (RegistrationData.userData rd)\<rparr>
         w1 = (Inr res, w2) \<and>
       userDataLogin env (RegisterResult res) (RegisterResponse.user res)
         (bytesToBase64 env (keys.seed keys)) (stores s) = (Inr (), st') \<and>
       state_of (register env url rd s) = \<lparr>stores = st', server = w2\<rparr> \<and>
       log_of (register env url rd s) =
         [(GetRegisterChallengeToken url, None),
          (KeysFromMnemonic (RegistrationData.mnemonic rd), None),
          (SignChallenge keys (ChallengeTokenResponse.challenge resp), None),
          (EncryptData (registrationUserData.device (RegistrationData.userData rd))
             (keys.seed keys), None),
          (RegisterAccount url
             \<lparr>RegisterInput.challenge =
                \<lparr>code = ChallengeTokenResponse.challenge resp, signature = sg\<rparr>,
              RegisterInput.publicKey = bytesToBase64Url env (keys.publicKey keys),
              RegisterInput.device = dev,
              RegisterInput.profile =
                registrationUserData.profile (RegistrationData.userData rd)\<rparr>, None),
          (UserDataLogin (RegisterResult res) (RegisterResponse.user res)
             (bytesToBase64 env (keys.seed keys)), None)]"
    by (rule register_success)
qed

theorem register_steps_witness:
  "result_of (register service_double backend (registration_data ''legal winner thank year'')
                (no_session 2)) = Inr () \<and>
   length (log_of (register service_double backend (registration_data ''legal winner thank year'')
                     (no_session 2))) = 6 \<and>
   map fst (log_of (register service_double backend (registration_data ''legal winner thank year'')
                      (no_session 2))) =
     [GetRegisterChallengeToken backend,
      KeysFromMnemonic ''legal winner thank year'',
      SignChallenge \<lparr>keys.publicKey = [1, 2, 3], privateKey = [4, 5, 6], keys.seed = [7, 8, 9]\<rparr>
        ''c2'',
      EncryptData ''phone'' [7, 8, 9],
      RegisterAccount backend
        \<lparr>RegisterInput.challenge = \<lparr>code = ''c2'', signature = ''sig:c2''\<rparr>,
         RegisterInput.publicKey = ''cHVibGlj'', RegisterInput.device = ''ciphertext'',
         RegisterInput.profile = some_profile\<rparr>,
      UserDataLogin
        (RegisterResult \<lparr>RegisterResponse.token = ''t2'', RegisterResponse.session = ''s2'',
                         user = ''u2''\<rparr>) ''u2'' ''c2VlZA=='']"
proof -
  let ?run = "register service_double backend (registration_data ''legal winner thank year'')
                (no_session 2)"
  have ok: "result_of ?run = Inr ()"
    by (simp add: register_def async_defs run_defs double_defs)
  from register_steps [where env = service_double and url = backend
      and rd = "registration_data ''legal winner thank year''" and s = "no_session 2",
    THEN conjunct2, THEN conjunct2, rule_format, OF ok]
  have len: "length (log_of ?run) = 6"
    by (elim exE conjE) simp
  have calls: "map fst (log_of ?run) =
     [GetRegisterChallengeToken backend,
      KeysFromMnemonic ''legal winner thank year'',
      SignChallenge \<lparr>keys.publicKey = [1, 2, 3], privateKey = [4, 5, 6], keys.seed = [7, 8, 9]\<rparr>
        ''c2'',
      EncryptData ''phone'' [7, 8, 9],
      RegisterAccount backend
        \<lparr>RegisterInput.challenge = \<lparr>code = ''c2'', signature = ''sig:c2''\<rparr>,
         RegisterInput.publicKey = ''cHVibGlj'', RegisterInput.device = ''ciphertext'',
         RegisterInput.profile = some_profile\<rparr>,
      UserDataLogin
        (RegisterResult \<lparr>RegisterResponse.token = ''t2'', RegisterResponse.session = ''s2'',
                         user = ''u2''\<rparr>) ''u2'' ''c2VlZA=='']"
    by (simp add: register_def async_defs run_defs double_defs)
  from ok len calls show ?thesis
    by (intro conjI)
qed

section \<open>Restore\<close>

text \<open>
  C6: with no current account, \<open>restore\<close> returns normally at once, having made no call
  (no fetch, no \<open>syncData\<close>) and changed nothing.
\<close>

theorem restore_without_session:
  "result_of (restore env url None s) = Inr () \<and>
   log_of (restore env url None s) = [] \<and>
   state_of (restore env url None s) = s"
  by (simp add: restore_def resolve_def run_defs)

lemma restore_failed_fetch:
  assumes "restore env url (Some acc) s = (r, l, s')" "(c, Some e) \<in> set l"
  shows "r = Inl e \<and> stores s' = stores s \<and>
         c \<in> {GetUser url (account.token acc), GetBookmarks url acc, GetProgress url acc} \<and>
         UserDataLogout \<notin> fst ` set l \<and> (\<forall>u p b. SyncData u p b \<notin> fst ` set l)"
  using assms unfolding restore_def
  by (auto elim!: awaitE simp: prim_iffs)

text \<open>
  C7: in a run of \<open>restore\<close> with a current account, a call that throws is one of the three
  fetches (\<open>getUser\<close>, \<open>getBookmarks\<close>, \<open>getProgress\<close>); the run then fails with that error,
  the client-side stores and so the stored account are what they were, and neither the logout
  handler nor \<open>syncData\<close> has been called.
\<close>

theorem restore_failure_keeps_session:
  fixes env :: "('z authStore_scheme, 'w) env"
  assumes "(c, Some e) \<in> set (log_of (restore env url (Some acc) s))"
  shows "c \<in> {GetUser url (account.token acc), GetBookmarks url acc, GetProgress url acc} \<and>
         result_of (restore env url (Some acc) s) = Inl e \<and>
         stores (state_of (restore env url (Some acc) s)) = stores s \<and>
         account (stores (state_of (restore env url (Some acc) s))) = account (stores s) \<and>
         loggedIn (stores (state_of (restore env url (Some acc) s))) = loggedIn (stores s) \<and>
         UserDataLogout \<notin> fst ` set (log_of (restore env url (Some acc) s)) \<and>
         SyncData u p b \<notin> fst ` set (log_of (restore env url (Some acc) s))"
proof -
  have "restore env url (Some acc) s =
          (result_of (restore env url (Some acc) s), log_of (restore env url (Some acc) s),
           state_of (restore env url (Some acc) s))"
    by (rule run_eq)
  from restore_failed_fetch [OF this assms] show ?thesis
    by simp
qed

theorem restore_failure_keeps_session_witness:
  "(GetBookmarks backend stored_account, Some (Thrown ''network''))
     \<in> set (log_of (restore service_double backend (Some stored_account) (with_session 1))) \<and>
   result_of (restore service_double backend (Some stored_account) (with_session 1))
     = Inl (Thrown ''network'') \<and>
   account (stores (state_of (restore service_double backend (Some stored_account)
                                (with_session 1)))) = Some stored_account"
proof -
  let ?run = "restore service_double backend (Some stored_account) (with_session 1)"
  have rejected: "(GetBookmarks backend stored_account, Some (Thrown ''network'')) \<in> set (log_of ?run)"
    by (simp add: restore_def async_defs run_defs double_defs)
  note kept = restore_failure_keeps_session [OF rejected]
  have "account (stores (with_session 1)) = Some stored_account"
    by (simp add: with_session_def)
  with kept [THEN conjunct2, THEN conjunct2, THEN conjunct2, THEN conjunct1]
  have same: "account (stores (state_of ?run)) = Some stored_account"
    by (rule trans)
  from rejected kept [THEN conjunct2, THEN conjunct1] same show ?thesis
    by (intro conjI)
qed

section \<open>What reaches the remote service\<close>

lemma login_wire_eq:
  assumes "login_transmissible env ld1 = login_transmissible env ld2"
  shows "remote_calls (log_of (login env url ld1 s)) = remote_calls (log_of (login env url ld2 s))"
proof (cases "keysFromMnemonic env (LoginData.mnemonic ld1)")
  case (Inl e1)
  with assms obtain e2 where "keysFromMnemonic env (LoginData.mnemonic ld2) = Inl e2"
    by (auto simp: login_transmissible_def split: sum.splits)
  with Inl show ?thesis
    by (simp add: login_def proj_simps remote_calls_simps)
next
  case (Inr k1)
  with assms obtain k2 where k2: "keysFromMnemonic env (LoginData.mnemonic ld2) = Inr k2"
    by (auto simp: login_transmissible_def split: sum.splits)
  from assms Inr k2 have
    pk: "bytesToBase64Url env (keys.publicKey k2) = bytesToBase64Url env (keys.publicKey k1)" and
    sg: "signChallenge env k2 = signChallenge env k1" and
    en: "encryptData env (loginUserData.device (LoginData.userData ld2)) (keys.seed k2) =
         encryptData env (loginUserData.device (LoginData.userData ld1)) (keys.seed k1)"
    by (simp_all add: login_transmissible_def)
  show ?thesis
    by (simp add: login_def Let_def proj_simps remote_calls_simps Inr k2 pk sg en
             split: sum.splits)
qed

lemma register_wire_eq:
  assumes "register_transmissible env rd1 = register_transmissible env rd2"
  shows "remote_calls (log_of (register env url rd1 s)) =
         remote_calls (log_of (register env url rd2 s))"
proof (cases "keysFromMnemonic env (RegistrationData.mnemonic rd1)")
  case (Inl e1)
  with assms obtain e2 where "keysFromMnemonic env (RegistrationData.mnemonic rd2) = Inl e2"
    by (auto simp: register_transmissible_def split: sum.splits)
  with Inl show ?thesis
    by (simp add: register_def Let_def proj_simps remote_calls_simps split: sum.splits)
next
  case (Inr k1)
  with assms obtain k2 where k2: "keysFromMnemonic env (RegistrationData.mnemonic rd2) = Inr k2"
    by (auto simp: register_transmissible_def split: sum.splits)
  from assms Inr k2 have
    pk: "bytesToBase64Url env (keys.publicKey k2) = bytesToBase64Url env (keys.publicKey k1)" and
    sg: "signChallenge env k2 = signChallenge env k1" and
    en: "encryptData env (registrationUserData.device (RegistrationData.userData rd2)) (keys.seed k2) =
         encryptData env (registrationUserData.device (RegistrationData.userData rd1)) (keys.seed k1)" and
    pr: "registrationUserData.profile (RegistrationData.userData rd2) =
         registrationUserData.profile (RegistrationData.userData rd1)"
    by (simp_all add: register_transmissible_def)
  show ?thesis
    by (simp add: register_def Let_def proj_simps remote_calls_simps Inr k2 pk sg en pr
             split: sum.splits)
qed

lemma logout_wire:
  "remote_calls (log_of (logout env url cur s)) =
     (case cur of None \<Rightarrow> []
      | Some acc \<Rightarrow> [RemoveSession url (account.token acc) (account.sessionId acc)])"
  by (simp add: logout_def async_defs run_defs split: option.splits prod.splits)

lemma restore_wire_exact:
  assumes "restore env url (Some acc) s = (r, l, s')"
  shows "remote_calls l \<in>
           {[GetUser url (account.token acc)],
            [GetUser url (account.token acc), GetBookmarks url acc],
            [GetUser url (account.token acc), GetBookmarks url acc, GetProgress url acc]} \<and>
         (r = Inr () \<longrightarrow>
            remote_calls l =
              [GetUser url (account.token acc), GetBookmarks url acc, GetProgress url acc])"
  using assms unfolding restore_def remote_calls_def
  by (auto elim!: awaitE simp: prim_iffs)

text \<open>
  C8, as stated: no operation passes the seed to a call of the remote service. This fails for
  \<open>restore\<close>, which hands the whole stored account, with the seed stored in it, to
  \<open>getBookmarks\<close> and \<open>getProgress\<close>: on the double, changing nothing but the stored seed
  changes the calls \<open>restore\<close> makes of the remote service.
\<close>

theorem restore_passes_stored_seed_counterexample:
  "account.seed stored_account = ''c2VlZA=='' \<and>
   remote_calls (log_of (restore service_double backend (Some stored_account) (with_session 3))) =
     [GetUser backend ''t1'', GetBookmarks backend stored_account,
      GetProgress backend stored_account] \<and>
   remote_calls (log_of (restore service_double backend
                           (Some (stored_account\<lparr>account.seed := ''b3RoZXI=''\<rparr>)) (with_session 3)))
     \<noteq> remote_calls (log_of (restore service_double backend (Some stored_account)
                                (with_session 3)))"
  by (simp add: restore_def async_defs run_defs double_defs)

text \<open>
  C8, amended: what \<open>login\<close> and \<open>register\<close> hand to the remote service does not depend on
  the mnemonic, the private key or the seed except through the transmissible values: two
  logins (two registrations) against the same server state, whose inputs may differ in
  mnemonic, private key, seed and device but agree on the base64url public key, the
  signatures, the encrypted device payload (and the profile), make the same calls of the
  remote service with the same arguments. \<open>logout\<close> calls the remote service with the stored
  token and session id only. \<open>restore\<close> calls \<open>getUser\<close> with the stored token, then
  \<open>getBookmarks\<close> and \<open>getProgress\<close> with the whole stored account, all three when it
  succeeds.
\<close>

theorem transmitted_arguments:
  assumes "login_transmissible env ld1 = login_transmissible env ld2"
      and "register_transmissible env rd1 = register_transmissible env rd2"
  shows "remote_calls (log_of (login env url ld1 s)) =
           remote_calls (log_of (login env url ld2 s)) \<and>
         remote_calls (log_of (register env url rd1 s)) =
           remote_calls (log_of (register env url rd2 s)) \<and>
         remote_calls (log_of (logout env url cur s)) =
           (case cur of None \<Rightarrow> []
            | Some a \<Rightarrow> [RemoveSession url (account.token a) (account.sessionId a)]) \<and>
         remote_calls (log_of (restore env url None s)) = [] \<and>
         remote_calls (log_of (restore env url (Some acc) s)) \<in>
           {[GetUser url (account.token acc)],
            [GetUser url (account.token acc), GetBookmarks url acc],
            [GetUser url (account.token acc), GetBookmarks url acc, GetProgress url acc]} \<and>
         (result_of (restore env url (Some acc) s) = Inr () \<longrightarrow>
            remote_calls (log_of (restore env url (Some acc) s)) =
              [GetUser url (account.token acc), GetBookmarks url acc, GetProgress url acc])"
proof -
  have a: "remote_calls (log_of (login env url ld1 s)) = remote_calls (log_of (login env url ld2 s))"
    using assms(1) by (rule login_wire_eq)
  have b: "remote_calls (log_of (register env url rd1 s)) =
        remote_calls (log_of (register env url rd2 s))"
    using assms(2) by (rule register_wire_eq)
  have c: "remote_calls (log_of (logout env url cur s)) =
           (case cur of None \<Rightarrow> []
            | Some a \<Rightarrow> [RemoveSession url (account.token a) (account.sessionId a)])"
    by (rule logout_wire)
  have d: "remote_calls (log_of (restore env url None s)) = []"
    by (simp add: restore_def resolve_def run_defs)
  have "restore env url (Some acc) s =
          (result_of (restore env url (Some acc) s), log_of (restore env url (Some acc) s),
           state_of (restore env url (Some acc) s))"
    by (rule run_eq)
  note e = restore_wire_exact [OF this]
  from a b c d e [THEN conjunct1] e [THEN conjunct2] show ?thesis
    by (intro conjI)
qed

text \<open>
  On the double, two mnemonics with the same public key and different private keys and seeds.
\<close>

theorem transmitted_arguments_witness:
  "login_transmissible service_double (login_data ''legal winner thank year'') =
     login_transmissible service_double (login_data ''letter advice cage absurd'') \<and>
   register_transmissible service_double (registration_data ''legal winner thank year'') =
     register_transmissible service_double (registration_data ''letter advice cage absurd'') \<and>
   keysFromMnemonic service_double ''legal winner thank year'' \<noteq>
     keysFromMnemonic service_double ''letter advice cage absurd'' \<and>
   remote_calls (log_of (login service_double backend (login_data ''legal winner thank year'')
                           (no_session 3))) =
     remote_calls (log_of (login service_double backend (login_data ''letter advice cage absurd'')
                             (no_session 3))) \<and>
   remote_calls (log_of (register service_double backend
                           (registration_data ''legal winner thank year'') (no_session 3))) =
     remote_calls (log_of (register service_double backend
                             (registration_data ''letter advice cage absurd'') (no_session 3))) \<and>
   remote_calls (log_of (login service_double backend (login_data ''letter advice cage absurd'')
                           (no_session 3))) =
     [GetLoginChallengeToken backend ''cHVibGlj'',
      LoginAccount backend
        \<lparr>LoginInput.challenge = \<lparr>code = ''c1'', signature = ''sig:c1''\<rparr>,
         LoginInput.publicKey = ''cHVibGlj'', LoginInput.device = ''ciphertext''\<rparr>,
      GetUser backend ''t1''] \<and>
   result_of (restore service_double backend (Some stored_account) (no_session 3)) = Inr () \<and>
   remote_calls (log_of (restore service_double backend (Some stored_account) (no_session 3))) =
     [GetUser backend (account.token stored_account), GetBookmarks backend stored_account,
      GetProgress backend stored_account]"
proof -
  have same_login:
    "login_transmissible service_double (login_data ''legal winner thank year'') =
     login_transmissible service_double (login_data ''letter advice cage absurd'')"
    by (simp add: login_transmissible_def double_defs)
  have same_register:
    "register_transmissible service_double (registration_data ''legal winner thank year'') =
     register_transmissible service_double (registration_data ''letter advice cage absurd'')"
    by (simp add: register_transmissible_def double_defs)
  have secrets_differ:
    "keysFromMnemonic service_double ''legal winner thank year'' \<noteq>
     keysFromMnemonic service_double ''letter advice cage absurd''"
    by (simp add: double_defs)
  note same_wire = transmitted_arguments
    [OF same_login same_register, where url = backend and s = "no_session 3"
       and acc = stored_account]
  have wire:
    "remote_calls (log_of (login service_double backend (login_data ''letter advice cage absurd'')
                           (no_session 3))) =
     [GetLoginChallengeToken backend ''cHVibGlj'',
      LoginAccount backend
        \<lparr>LoginInput.challenge = \<lparr>code = ''c1'', signature = ''sig:c1''\<rparr>,
         LoginInput.publicKey = ''cHVibGlj'', LoginInput.device = ''ciphertext''\<rparr>,
      GetUser backend ''t1'']"
    by (simp add: login_def async_defs run_defs double_defs)
  have restored: "result_of (restore service_double backend (Some stored_account) (no_session 3))
                    = Inr ()"
    by (simp add: restore_def async_defs run_defs double_defs)
  note whole_account =
    same_wire [THEN conjunct2, THEN conjunct2, THEN conjunct2, THEN conjunct2, THEN conjunct2,
      rule_format, OF restored]
  from same_login same_register secrets_differ same_wire [THEN conjunct1]
    same_wire [THEN conjunct2, THEN conjunct1] wire restored whole_account
  show ?thesis
    by (intro conjI)
qed

section \<open>What the hook returns\<close>

text \<open>
  C10: for every state of the auth store, \<open>loggedIn\<close> holds exactly when the stored account
  is not null, and the returned profile is the profile field of that account; so the
  profile is undefined whenever \<open>loggedIn\<close> is false.
\<close>

theorem loggedIn_iff_account:
  "(loggedIn s \<longleftrightarrow> account s \<noteq> None) \<and>
   useAuth_profile s = map_option account.profile (account s) \<and>
   (\<not> loggedIn s \<longrightarrow> useAuth_profile s = None)"
  by (cases "account s") (simp_all add: loggedIn_def truthy_def useAuth_profile_def)

theorem loggedIn_iff_account_witness:
  "\<not> loggedIn \<lparr>account = None\<rparr> \<and> useAuth_profile \<lparr>account = None\<rparr> = None \<and>
   loggedIn \<lparr>account = Some stored_account\<rparr> \<and>
   useAuth_profile \<lparr>account = Some stored_account\<rparr> = Some some_profile"
proof -
  have out: "\<not> loggedIn \<lparr>account = None\<rparr>"
    using loggedIn_iff_account [of "\<lparr>account = None\<rparr>", THEN conjunct1] by simp
  note undefined_profile =
    loggedIn_iff_account [of "\<lparr>account = None\<rparr>", THEN conjunct2, THEN conjunct2, rule_format, OF out]
  have inside: "loggedIn \<lparr>account = Some stored_account\<rparr>"
    using loggedIn_iff_account [of "\<lparr>account = Some stored_account\<rparr>", THEN conjunct1] by simp
  have shown: "useAuth_profile \<lparr>account = Some stored_account\<rparr> = Some some_profile"
    using loggedIn_iff_account [of "\<lparr>account = Some stored_account\<rparr>", THEN conjunct2, THEN conjunct1]
    by (simp add: stored_account_def)
  from out undefined_profile inside shown show ?thesis
    by (intro conjI)
qed

section \<open>Two logins in flight: no single-flight guard\<close>

lemma login_steps_alone:
  "login_steps env url 7 (AtKeysFromMnemonic ld) s =
     (case login env url ld s of (r, l, s') \<Rightarrow> (Settled r, l, s'))"
  by (simp add: eval_nat_numeral login_def resume_def async_defs split: sum.splits prod.splits)












end
